theory Spec2Isabelle
  imports Complex_Main
begin

section \<open>The scalar type: C++ double\<close>

text \<open>
  The three components of an ofVec3d are C++ doubles.  A double is modelled as an exact
  real number, one of the two infinities, or NaN.  The special values follow IEEE 754:
  NaN propagates through every arithmetic operation, every ordered comparison with NaN
  is false, and NaN is unequal to everything, itself included.  Finite arithmetic is
  exact: rounding, overflow, underflow and the sign of zero are not part of the model.
\<close>

datatype double = Finite real | PosInf | NegInf | NaN

fun isFinite :: "double \<Rightarrow> bool" where
  "isFinite (Finite r) = True"
| "isFinite d = False"

text \<open>The sign of a double as a real number (1, 0 or -1); NaN has none and is given 0.\<close>

fun sign_d :: "double \<Rightarrow> real" where
  "sign_d (Finite r) = sgn r"
| "sign_d PosInf = 1"
| "sign_d NegInf = - 1"
| "sign_d NaN = 0"

text \<open>The infinity of a given sign; an undetermined sign (0 times infinity) is NaN.\<close>

definition inf_of_sign :: "real \<Rightarrow> double" where
  "inf_of_sign s = (if 0 < s then PosInf else if s < 0 then NegInf else NaN)"

text \<open>The comparison operators == and != of C++ on doubles.\<close>

fun eq_d :: "double \<Rightarrow> double \<Rightarrow> bool" where
  "eq_d (Finite a) (Finite b) = (a = b)"
| "eq_d PosInf PosInf = True"
| "eq_d NegInf NegInf = True"
| "eq_d a b = False"

definition ne_d :: "double \<Rightarrow> double \<Rightarrow> bool" where
  "ne_d a b = (\<not> eq_d a b)"

instantiation double :: "{zero, one, plus, uminus, minus, times, divide, ord}"
begin

definition zero_double :: double where
  "zero_double = Finite 0"

definition one_double :: double where
  "one_double = Finite 1"

fun plus_double :: "double \<Rightarrow> double \<Rightarrow> double" where
  "plus_double (Finite a) (Finite b) = Finite (a + b)"
| "plus_double NaN b = NaN"
| "plus_double a NaN = NaN"
| "plus_double PosInf NegInf = NaN"
| "plus_double NegInf PosInf = NaN"
| "plus_double PosInf b = PosInf"
| "plus_double a PosInf = PosInf"
| "plus_double NegInf b = NegInf"
| "plus_double a NegInf = NegInf"

fun uminus_double :: "double \<Rightarrow> double" where
  "uminus_double (Finite a) = Finite (- a)"
| "uminus_double PosInf = NegInf"
| "uminus_double NegInf = PosInf"
| "uminus_double NaN = NaN"

definition minus_double :: "double \<Rightarrow> double \<Rightarrow> double" where
  "minus_double (a::double) b = a + (- b)"

fun times_double :: "double \<Rightarrow> double \<Rightarrow> double" where
  "times_double (Finite a) (Finite b) = Finite (a * b)"
| "times_double NaN b = NaN"
| "times_double a NaN = NaN"
| "times_double a b = inf_of_sign (sign_d a * sign_d b)"

text \<open>
  Division.  A finite dividend over zero gives the infinity of the dividend's sign and
  0/0 gives NaN (the zero of the model is the positive one); a finite dividend over an
  infinity gives zero; infinity over infinity gives NaN.
\<close>

fun divide_double :: "double \<Rightarrow> double \<Rightarrow> double" where
  "divide_double NaN b = NaN"
| "divide_double a NaN = NaN"
| "divide_double (Finite a) (Finite b) = (if b = 0 then inf_of_sign (sgn a) else Finite (a / b))"
| "divide_double (Finite a) b = Finite 0"
| "divide_double a (Finite b) = inf_of_sign (sign_d a * (if b < 0 then - 1 else 1))"
| "divide_double a b = NaN"

fun less_double :: "double \<Rightarrow> double \<Rightarrow> bool" where
  "less_double (Finite a) (Finite b) = (a < b)"
| "less_double NaN b = False"
| "less_double a NaN = False"
| "less_double a NegInf = False"
| "less_double PosInf b = False"
| "less_double a b = True"

definition less_eq_double :: "double \<Rightarrow> double \<Rightarrow> bool" where
  "less_eq_double (a::double) b = (a < b \<or> eq_d a b)"

instance ..

end

instantiation double :: inverse
begin

definition inverse_double :: "double \<Rightarrow> double" where
  "inverse_double a = divide (Finite 1) a"

instance ..

end

text \<open>The functions of <cmath> that the class calls.\<close>

fun sqrt_d :: "double \<Rightarrow> double" where
  "sqrt_d (Finite r) = (if 0 \<le> r then Finite (sqrt r) else NaN)"
| "sqrt_d PosInf = PosInf"
| "sqrt_d d = NaN"

fun fabs :: "double \<Rightarrow> double" where
  "fabs (Finite r) = Finite \<bar>r\<bar>"
| "fabs PosInf = PosInf"
| "fabs NegInf = PosInf"
| "fabs NaN = NaN"



fun acos :: "double \<Rightarrow> double" where
  "acos (Finite r) = (if - 1 \<le> r \<and> r \<le> 1 then Finite (arccos r) else NaN)"
| "acos d = NaN"


definition RAD_TO_DEG :: double where
  "RAD_TO_DEG = Finite (180 / pi)"

section \<open>The class ofVec3d\<close>

record ofVec3d =
  x :: double
  y :: double
  z :: double

text \<open>The constructors \<open>ofVec3d(_x, _y, _z)\<close> and \<open>ofVec3d()\<close>, and \<open>set\<close>.\<close>

definition ofVec3d :: "double \<Rightarrow> double \<Rightarrow> double \<Rightarrow> ofVec3d" where
  "ofVec3d a b c = \<lparr>x = a, y = b, z = c\<rparr>"

definition ofVec3d_default :: ofVec3d where
  "ofVec3d_default = \<lparr>x = 0, y = 0, z = 0\<rparr>"


text \<open>A vector all of whose components are finite numbers.\<close>

definition finiteVec :: "ofVec3d \<Rightarrow> bool" where
  "finiteVec v = (isFinite (x v) \<and> isFinite (y v) \<and> isFinite (z v))"

text \<open>
  The range in which a squared length (a sum of three squares) is computed by double
  arithmetic as it is by exact arithmetic, up to rounding of the last digits: from
  2^-1000 to 2^1000.  There no square overflows to infinity, and a square that underflows
  changes the sum by less than the rounding of the sum does.  Outside this range the
  machine's sum of squares can be infinite, or zero for a non-zero vector.
\<close>

definition inRange :: "double \<Rightarrow> bool" where
  "inRange d = (Finite (1 / 2 ^ 1000) \<le> d \<and> d \<le> Finite (2 ^ 1000))"

subsection \<open>Comparison\<close>

definition operator_eq :: "ofVec3d \<Rightarrow> ofVec3d \<Rightarrow> bool" where
  "operator_eq v vec = (eq_d (x v) (x vec) \<and> eq_d (y v) (y vec) \<and> eq_d (z v) (z vec))"

definition operator_ne :: "ofVec3d \<Rightarrow> ofVec3d \<Rightarrow> bool" where
  "operator_ne v vec = (ne_d (x v) (x vec) \<or> ne_d (y v) (y vec) \<or> ne_d (z v) (z vec))"

definition match :: "ofVec3d \<Rightarrow> ofVec3d \<Rightarrow> double \<Rightarrow> bool" where
  "match v vec tolerance =
     (fabs (x v - x vec) < tolerance
      \<and> fabs (y v - y vec) < tolerance
      \<and> fabs (z v - z vec) < tolerance)"

subsection \<open>Division operators\<close>

text \<open>\<open>operator/(const ofVec3d&)\<close> and \<open>operator/=(const ofVec3d&)\<close>.\<close>

definition operator_div :: "ofVec3d \<Rightarrow> ofVec3d \<Rightarrow> ofVec3d" where
  "operator_div v vec =
     ofVec3d (if ne_d (x vec) 0 then x v / x vec else x v)
             (if ne_d (y vec) 0 then y v / y vec else y v)
             (if ne_d (z vec) 0 then z v / z vec else z v)"

definition operator_div_assign :: "ofVec3d \<Rightarrow> ofVec3d \<Rightarrow> ofVec3d" where
  "operator_div_assign v vec =
     (let v1 = (if ne_d (x vec) 0 then v\<lparr>x := x v / x vec\<rparr> else v);
          v2 = (if ne_d (y vec) 0 then v1\<lparr>y := y v1 / y vec\<rparr> else v1);
          v3 = (if ne_d (z vec) 0 then v2\<lparr>z := z v2 / z vec\<rparr> else v2)
      in v3)"

text \<open>\<open>operator/(const double)\<close> and \<open>operator/=(const double)\<close>.\<close>

definition operator_div_double :: "ofVec3d \<Rightarrow> double \<Rightarrow> ofVec3d" where
  "operator_div_double v f =
     (if eq_d f 0 then ofVec3d (x v) (y v) (z v)
      else ofVec3d (x v / f) (y v / f) (z v / f))"

definition operator_div_assign_double :: "ofVec3d \<Rightarrow> double \<Rightarrow> ofVec3d" where
  "operator_div_assign_double v f =
     (if eq_d f 0 then v
      else (let v1 = v\<lparr>x := x v / f\<rparr>;
                v2 = v1\<lparr>y := y v1 / f\<rparr>;
                v3 = v2\<lparr>z := z v2 / f\<rparr>
            in v3))"

subsection \<open>Scale\<close>



subsection \<open>Normalization, length, dot product, angle\<close>

definition getNormalized :: "ofVec3d \<Rightarrow> ofVec3d" where
  "getNormalized v =
     (let len = sqrt_d (x v * x v + y v * y v + z v * z v) in
      if len > 0 then ofVec3d (x v / len) (y v / len) (z v / len)
      else ofVec3d_default)"

definition normalize_vec :: "ofVec3d \<Rightarrow> ofVec3d" where
  "normalize_vec v =
     (let len = sqrt_d (x v * x v + y v * y v + z v * z v) in
      if len > 0 then
        (let v1 = v\<lparr>x := x v / len\<rparr>;
             v2 = v1\<lparr>y := y v1 / len\<rparr>;
             v3 = v2\<lparr>z := z v2 / len\<rparr>
         in v3)
      else v)"

definition length_vec :: "ofVec3d \<Rightarrow> double" where
  "length_vec v = sqrt_d (x v * x v + y v * y v + z v * z v)"

definition lengthSquared :: "ofVec3d \<Rightarrow> double" where
  "lengthSquared v = x v * x v + y v * y v + z v * z v"

definition dot :: "ofVec3d \<Rightarrow> ofVec3d \<Rightarrow> double" where
  "dot v vec = x v * x vec + y v * y vec + z v * z vec"

definition angle :: "ofVec3d \<Rightarrow> ofVec3d \<Rightarrow> double" where
  "angle v vec =
     (let n1 = getNormalized v;
          n2 = getNormalized vec
      in acos (dot n1 n2) * RAD_TO_DEG)"

definition angleRad :: "ofVec3d \<Rightarrow> ofVec3d \<Rightarrow> double" where
  "angleRad v vec =
     (let n1 = getNormalized v;
          n2 = getNormalized vec
      in acos (dot n1 n2))"

subsection \<open>Limit length\<close>



subsection \<open>Linear interpolation\<close>

definition getInterpolated :: "ofVec3d \<Rightarrow> ofVec3d \<Rightarrow> double \<Rightarrow> ofVec3d" where
  "getInterpolated v pnt p =
     ofVec3d (x v * (1 - p) + x pnt * p)
             (y v * (1 - p) + y pnt * p)
             (z v * (1 - p) + z pnt * p)"

definition interpolate :: "ofVec3d \<Rightarrow> ofVec3d \<Rightarrow> double \<Rightarrow> ofVec3d" where
  "interpolate v pnt p =
     (let v1 = v\<lparr>x := x v * (1 - p) + x pnt * p\<rparr>;
          v2 = v1\<lparr>y := y v1 * (1 - p) + y pnt * p\<rparr>;
          v3 = v2\<lparr>z := z v2 * (1 - p) + z pnt * p\<rparr>
      in v3)"

subsection \<open>Rotation\<close>







subsection \<open>Mapping to another coordinate system\<close>



section \<open>Auxiliary facts\<close>

lemma zero_double_simp: "(0::double) = Finite 0"
  by (simp add: zero_double_def)

lemma one_double_simp: "(1::double) = Finite 1"
  by (simp add: one_double_def)

lemma isFinite_iff: "isFinite d \<longleftrightarrow> (\<exists>r. d = Finite r)"
  by (cases d) simp_all

lemma finiteVec_obtain:
  assumes "finiteVec v"
  obtains a b c where "v = \<lparr>x = Finite a, y = Finite b, z = Finite c\<rparr>"
proof -
  from assms obtain a b c where "x v = Finite a" "y v = Finite b" "z v = Finite c"
    by (auto simp add: finiteVec_def isFinite_iff)
  then have "v = \<lparr>x = Finite a, y = Finite b, z = Finite c\<rparr>" by (cases v) simp
  then show thesis by (rule that)
qed

text \<open>The squared length of a real triple is positive unless the triple is zero.\<close>

lemma sumsq_nonneg: "0 \<le> a * a + b * b + c * (c::real)"
  by (simp add: add_nonneg_nonneg)

lemma sumsq_zero_iff: "a * a + b * b + c * (c::real) = 0 \<longleftrightarrow> a = 0 \<and> b = 0 \<and> c = 0"
proof
  assume h: "a * a + b * b + c * c = 0"
  have "a * a \<ge> 0" "b * b \<ge> 0" "c * c \<ge> 0" by simp_all
  with h have "a * a = 0" "b * b = 0" "c * c = 0" by linarith+
  then show "a = 0 \<and> b = 0 \<and> c = 0" by simp
qed simp

lemma sumsq_pos_iff: "0 < a * a + b * b + c * (c::real) \<longleftrightarrow> \<not> (a = 0 \<and> b = 0 \<and> c = 0)"
  using sumsq_nonneg [of a b c] sumsq_zero_iff [of a b c] by linarith

text \<open>What \<open>getNormalized\<close> computes on finite components, and that \<open>normalize\<close> agrees.\<close>

lemma getNormalized_finite:
  "getNormalized \<lparr>x = Finite a, y = Finite b, z = Finite c\<rparr> =
     (if a = 0 \<and> b = 0 \<and> c = 0 then \<lparr>x = Finite 0, y = Finite 0, z = Finite 0\<rparr>
      else \<lparr>x = Finite (a / sqrt (a * a + b * b + c * c)),
            y = Finite (b / sqrt (a * a + b * b + c * c)),
            z = Finite (c / sqrt (a * a + b * b + c * c))\<rparr>)"
  using sumsq_nonneg [of a b c] sumsq_pos_iff [of a b c]
  by (auto simp add: getNormalized_def ofVec3d_def ofVec3d_default_def zero_double_simp Let_def)

lemma normalize_vec_finite:
  "normalize_vec \<lparr>x = Finite a, y = Finite b, z = Finite c\<rparr> =
   getNormalized \<lparr>x = Finite a, y = Finite b, z = Finite c\<rparr>"
  using sumsq_nonneg [of a b c] sumsq_pos_iff [of a b c]
  by (auto simp add: getNormalized_def normalize_vec_def ofVec3d_def ofVec3d_default_def
      zero_double_simp Let_def)

lemma unit_length_real:
  assumes "\<not> (a = 0 \<and> b = 0 \<and> c = (0::real))"
  defines "l \<equiv> sqrt (a * a + b * b + c * c)"
  shows "a / l * (a / l) + b / l * (b / l) + c / l * (c / l) = 1"
proof -
  have pos: "0 < a * a + b * b + c * c" using assms(1) by (simp add: sumsq_pos_iff)
  then have l2: "l * l = a * a + b * b + c * c" by (simp add: l_def)
  have "a / l * (a / l) + b / l * (b / l) + c / l * (c / l) = (a * a + b * b + c * c) / (l * l)"
    by (simp add: add_divide_distrib)
  also have "\<dots> = 1" using pos l2 by simp
  finally show ?thesis .
qed







lemma inRange_25: "inRange (Finite 25)"
  by (simp add: inRange_def less_eq_double_def)


section \<open>Properties\<close>

subsection \<open>Euler rotation\<close>




subsection \<open>Angle with a zero-length vector\<close>

text \<open>
  C2, as amended: when one of the two vectors is the zero vector and the other has finite
  components, \<open>angle\<close> returns 90 degrees and \<open>angleRad\<close> returns pi/2, not NaN.  The
  guarded normalisation gives the zero vector, the dot product is 0, and 0 is inside
  the domain of the arc cosine.
\<close>

theorem angle_zero_vector:
  assumes "finiteVec w"
  shows "angle (ofVec3d 0 0 0) w = Finite 90 \<and> angle w (ofVec3d 0 0 0) = Finite 90
     \<and> angleRad (ofVec3d 0 0 0) w = Finite (pi / 2)
     \<and> angleRad w (ofVec3d 0 0 0) = Finite (pi / 2)"
proof -
  from assms obtain a b c where w: "w = \<lparr>x = Finite a, y = Finite b, z = Finite c\<rparr>"
    by (rule finiteVec_obtain)
  show ?thesis
    by (simp add: w angle_def angleRad_def ofVec3d_def getNormalized_finite dot_def
        RAD_TO_DEG_def zero_double_simp)
qed

text \<open>The theorem at w = (3, 4, 0).\<close>

theorem angle_zero_vector_witness:
  "finiteVec (ofVec3d (Finite 3) (Finite 4) (Finite 0))
   \<and> angle (ofVec3d 0 0 0) (ofVec3d (Finite 3) (Finite 4) (Finite 0)) = Finite 90
   \<and> angleRad (ofVec3d (Finite 3) (Finite 4) (Finite 0)) (ofVec3d 0 0 0) = Finite (pi / 2)"
proof -
  have fin: "finiteVec (ofVec3d (Finite 3) (Finite 4) (Finite 0))"
    by (simp add: finiteVec_def ofVec3d_def)
  from angle_zero_vector [OF fin] fin show ?thesis by blast
qed

text \<open>
  C2 as stated fails: the angle between the zero vector and (1, 0, 0) is the number 90
  (pi/2 in radians), in both orders of the two vectors.
\<close>

theorem angle_zero_vector_counterexample:
  "angle (ofVec3d (Finite 0) (Finite 0) (Finite 0)) (ofVec3d (Finite 1) (Finite 0) (Finite 0))
     = Finite 90
   \<and> angleRad (ofVec3d (Finite 0) (Finite 0) (Finite 0)) (ofVec3d (Finite 1) (Finite 0) (Finite 0))
     = Finite (pi / 2)
   \<and> angle (ofVec3d (Finite 1) (Finite 0) (Finite 0)) (ofVec3d (Finite 0) (Finite 0) (Finite 0))
     = Finite 90
   \<and> Finite 90 \<noteq> NaN \<and> Finite (pi / 2) \<noteq> NaN"
  by (simp add: angle_def angleRad_def ofVec3d_def getNormalized_finite dot_def RAD_TO_DEG_def)

subsection \<open>Division\<close>

text \<open>
  C3: \<open>v / w\<close> divides each component of v by the component of w, except that a
  component whose divisor is zero is left as it was; \<open>v /= w\<close> gives the same vector; and
  dividing by the vector (0, 0, 0) gives v back.
\<close>

theorem operator_div_skips_zero_components:
  "x (operator_div v w) = (if eq_d (x w) 0 then x v else x v / x w)
   \<and> y (operator_div v w) = (if eq_d (y w) 0 then y v else y v / y w)
   \<and> z (operator_div v w) = (if eq_d (z w) 0 then z v else z v / z w)
   \<and> operator_div_assign v w = operator_div v w
   \<and> operator_div v (ofVec3d 0 0 0) = v"
  by (cases v) (simp add: operator_div_def operator_div_assign_def ofVec3d_def ne_d_def
      zero_double_simp Let_def)

text \<open>
  C4: dividing a vector by the scalar zero, with \<open>operator/\<close> or with \<open>operator/=\<close>,
  leaves every component as it was.
\<close>

theorem div_scalar_zero_unchanged:
  "operator_div_double v 0 = v \<and> operator_div_assign_double v 0 = v"
  by (simp add: operator_div_double_def operator_div_assign_double_def ofVec3d_def
      zero_double_simp)

subsection \<open>Mutating and non-mutating forms\<close>




subsection \<open>Normalization\<close>

text \<open>
  C6, as amended: for every vector v with finite components whose squared length is in
  the range from 2^-1000 to 2^1000, \<open>getNormalized\<close> and \<open>normalize\<close> give the same vector,
  of length 1 (exactly in exact arithmetic, so up to rounding in double arithmetic);
  the zero vector is normalized to the zero vector, of length 0; in both cases the
  components of the result are finite numbers, so no NaN is produced.
\<close>

theorem normalize_unit_length:
  assumes "finiteVec v" "v = ofVec3d 0 0 0 \<or> inRange (lengthSquared v)"
  shows "length_vec (getNormalized v) = (if v = ofVec3d 0 0 0 then 0 else 1)
     \<and> getNormalized (ofVec3d 0 0 0) = ofVec3d 0 0 0
     \<and> normalize_vec v = getNormalized v
     \<and> finiteVec (getNormalized v)"
proof -
  from assms(1) obtain a b c where v: "v = \<lparr>x = Finite a, y = Finite b, z = Finite c\<rparr>"
    by (rule finiteVec_obtain)
  show ?thesis
  proof (cases "a = 0 \<and> b = 0 \<and> c = 0")
    case True
    then show ?thesis
      by (simp add: v getNormalized_finite normalize_vec_finite length_vec_def
          ofVec3d_def zero_double_simp finiteVec_def)
  next
    case False
    then show ?thesis
      using unit_length_real [OF False]
      by (simp add: v getNormalized_finite normalize_vec_finite length_vec_def
          ofVec3d_def zero_double_simp one_double_simp finiteVec_def)
  qed
qed

text \<open>The theorem at v = (3, 4, 0), of squared length 25, and at the zero vector.\<close>

theorem normalize_unit_length_witness:
  "finiteVec (ofVec3d (Finite 3) (Finite 4) (Finite 0))
   \<and> inRange (lengthSquared (ofVec3d (Finite 3) (Finite 4) (Finite 0)))
   \<and> length_vec (getNormalized (ofVec3d (Finite 3) (Finite 4) (Finite 0))) = Finite 1
   \<and> finiteVec (ofVec3d 0 0 0)
   \<and> length_vec (getNormalized (ofVec3d 0 0 0)) = Finite 0"
proof -
  have f1: "finiteVec (ofVec3d (Finite 3) (Finite 4) (Finite 0))"
    by (simp add: finiteVec_def ofVec3d_def)
  have r1: "inRange (lengthSquared (ofVec3d (Finite 3) (Finite 4) (Finite 0)))"
    by (simp add: lengthSquared_def ofVec3d_def inRange_25)
  have f2: "finiteVec (ofVec3d 0 0 0)"
    by (simp add: finiteVec_def ofVec3d_def zero_double_simp)
  from normalize_unit_length [OF f1 disjI2, OF r1] normalize_unit_length [OF f2 disjI1, OF refl]
    f1 r1 f2
  show ?thesis by (simp add: ofVec3d_def zero_double_simp one_double_simp)
qed

text \<open>
  C6 as stated fails.  The vector (infinity, 0, 0) is not the zero vector; its computed
  length is infinity, which passes the test \<open>length > 0\<close>, and infinity divided by
  infinity is NaN: both forms return (NaN, 0, 0), whose length is NaN and not 1.
\<close>

theorem normalize_infinite_counterexample:
  "getNormalized (ofVec3d PosInf (Finite 0) (Finite 0)) = ofVec3d NaN (Finite 0) (Finite 0)
   \<and> normalize_vec (ofVec3d PosInf (Finite 0) (Finite 0)) = ofVec3d NaN (Finite 0) (Finite 0)
   \<and> length_vec (getNormalized (ofVec3d PosInf (Finite 0) (Finite 0))) = NaN
   \<and> ofVec3d PosInf (Finite 0) (Finite 0) \<noteq> ofVec3d (Finite 0) (Finite 0) (Finite 0)
   \<and> NaN \<noteq> Finite 1"
  by (simp add: getNormalized_def normalize_vec_def length_vec_def ofVec3d_def Let_def
      zero_double_simp inf_of_sign_def)

subsection \<open>Limiting the length\<close>




subsection \<open>Matching within a tolerance\<close>

text \<open>
  C8: \<open>match(w, t)\<close> is true exactly when each of the three component differences is
  smaller in absolute value than t; (40, 20, 70) matches (40.01, 19.999, 70.05) with
  tolerance 0.1 and does not match it with tolerance 0.01.
\<close>

theorem match_per_axis:
  "match v w t = (fabs (x v - x w) < t \<and> fabs (y v - y w) < t \<and> fabs (z v - z w) < t)
   \<and> match (ofVec3d (Finite 40) (Finite 20) (Finite 70))
            (ofVec3d (Finite 40.01) (Finite 19.999) (Finite 70.05)) (Finite 0.1)
   \<and> \<not> match (ofVec3d (Finite 40) (Finite 20) (Finite 70))
            (ofVec3d (Finite 40.01) (Finite 19.999) (Finite 70.05)) (Finite 0.01)"
  by (simp add: match_def ofVec3d_def minus_double_def)

subsection \<open>Interpolation\<close>

text \<open>
  C9, as amended: for vectors a and b with finite components, the interpolation
  \<open>a*(1-p) + b*p\<close> is a at p = 0 and b at p = 1, exactly: the vectors are identical and
  \<open>operator==\<close> holds between them.  The mutating \<open>interpolate\<close> gives the same.
\<close>

theorem getInterpolated_endpoints:
  assumes "finiteVec a" "finiteVec b"
  shows "getInterpolated a b 0 = a \<and> getInterpolated a b 1 = b
    \<and> operator_eq (getInterpolated a b 0) a \<and> operator_eq (getInterpolated a b 1) b
    \<and> interpolate a b 0 = a \<and> interpolate a b 1 = b"
proof -
  from assms(1) obtain a1 a2 a3 where a: "a = \<lparr>x = Finite a1, y = Finite a2, z = Finite a3\<rparr>"
    by (rule finiteVec_obtain)
  from assms(2) obtain b1 b2 b3 where b: "b = \<lparr>x = Finite b1, y = Finite b2, z = Finite b3\<rparr>"
    by (rule finiteVec_obtain)
  show ?thesis
    by (simp add: a b getInterpolated_def interpolate_def ofVec3d_def operator_eq_def
        zero_double_simp one_double_simp minus_double_def)
qed

text \<open>The theorem at a = (0, 5, 0) and b = (10, 10, 20).\<close>

theorem getInterpolated_endpoints_witness:
  "finiteVec (ofVec3d (Finite 0) (Finite 5) (Finite 0))
   \<and> finiteVec (ofVec3d (Finite 10) (Finite 10) (Finite 20))
   \<and> getInterpolated (ofVec3d (Finite 0) (Finite 5) (Finite 0))
        (ofVec3d (Finite 10) (Finite 10) (Finite 20)) 0 = ofVec3d (Finite 0) (Finite 5) (Finite 0)
   \<and> getInterpolated (ofVec3d (Finite 0) (Finite 5) (Finite 0))
        (ofVec3d (Finite 10) (Finite 10) (Finite 20)) 1 = ofVec3d (Finite 10) (Finite 10) (Finite 20)"
proof -
  have fa: "finiteVec (ofVec3d (Finite 0) (Finite 5) (Finite 0))"
    by (simp add: finiteVec_def ofVec3d_def)
  have fb: "finiteVec (ofVec3d (Finite 10) (Finite 10) (Finite 20))"
    by (simp add: finiteVec_def ofVec3d_def)
  from getInterpolated_endpoints [OF fa fb] fa fb show ?thesis by blast
qed

text \<open>
  C9 as stated fails.  With a = (infinity, 2, 3), b = (1, 1, 1) and p = 1 the first
  component is infinity times 0 plus 1, which is NaN: the result (NaN, 1, 1) is not b.
\<close>

theorem getInterpolated_infinite_counterexample:
  "getInterpolated (ofVec3d PosInf (Finite 2) (Finite 3))
      (ofVec3d (Finite 1) (Finite 1) (Finite 1)) (Finite 1)
     = ofVec3d NaN (Finite 1) (Finite 1)
   \<and> ofVec3d NaN (Finite 1) (Finite 1) \<noteq> ofVec3d (Finite 1) (Finite 1) (Finite 1)
   \<and> \<not> operator_eq (getInterpolated (ofVec3d PosInf (Finite 2) (Finite 3))
           (ofVec3d (Finite 1) (Finite 1) (Finite 1)) (Finite 1))
         (ofVec3d (Finite 1) (Finite 1) (Finite 1))"
  by (simp add: getInterpolated_def ofVec3d_def one_double_simp minus_double_def
      inf_of_sign_def operator_eq_def)

subsection \<open>Equality and inequality\<close>

text \<open>
  C10: \<open>v != w\<close> is true exactly when \<open>v == w\<close> is false, whatever the components are,
  NaN included.
\<close>

theorem operator_ne_is_not_operator_eq:
  "operator_ne v w = (\<not> operator_eq v w)"
  by (simp add: operator_ne_def operator_eq_def ne_d_def)

text \<open>The theorem at a vector with a NaN component, compared with itself.\<close>

theorem operator_ne_is_not_operator_eq_witness:
  "operator_ne (ofVec3d NaN (Finite 1) (Finite 2)) (ofVec3d NaN (Finite 1) (Finite 2))
   \<and> \<not> operator_eq (ofVec3d NaN (Finite 1) (Finite 2)) (ofVec3d NaN (Finite 1) (Finite 2))"
  using operator_ne_is_not_operator_eq
    [of "ofVec3d NaN (Finite 1) (Finite 2)" "ofVec3d NaN (Finite 1) (Finite 2)"]
  by (simp add: operator_eq_def ofVec3d_def)

end
